theory Spec2Isabelle
  imports Complex_Main "HOL-Library.Sublist"
begin

section \<open>Threat score and severity (analyzer.py)\<close>

text \<open>
  Python floats are modelled as reals and Python's unbounded ints as \<open>int\<close>.
  The two dictionaries that \<open>_calculate_threat_score\<close> reads are represented by the
  results of the two lookups it performs: \<open>mitre_mapping.get("techniques", [])\<close> and
  \<open>parsed_data.get("confidence", 0.5)\<close>; \<open>None\<close> stands for a missing key.
\<close>

definition calculate_threat_score :: "real option \<Rightarrow> string list option \<Rightarrow> real" where
  "calculate_threat_score confidence_entry techniques_entry =
     (let base_score = 50.0;
          technique_count = int (length (case techniques_entry of None \<Rightarrow> [] | Some ts \<Rightarrow> ts));
          base_score = base_score + real_of_int (min (technique_count * 5) 30);
          confidence = (case confidence_entry of None \<Rightarrow> 0.5 | Some c \<Rightarrow> c);
          base_score = base_score * confidence
      in min base_score 100.0)"

definition get_severity :: "real \<Rightarrow> string" where
  "get_severity threat_score =
     (if threat_score \<ge> 80 then ''CRITICAL''
      else if threat_score \<ge> 60 then ''HIGH''
      else if threat_score \<ge> 40 then ''MEDIUM''
      else if threat_score \<ge> 20 then ''LOW''
      else ''INFO'')"

section \<open>Python built-ins used by the correlator\<close>

datatype py_error = IndexError

text \<open>\<open>s.split(sep)\<close> for a one-character separator: the result is never empty.\<close>

fun split :: "char \<Rightarrow> string \<Rightarrow> string list" where
  "split sep [] = [[]]"
| "split sep (c # cs) =
     (if c = sep then [] # split sep cs
      else (case split sep cs of
              [] \<Rightarrow> [[c]]
            | p # ps \<Rightarrow> (c # p) # ps))"

text \<open>\<open>xs[:k]\<close>: a negative bound counts from the end; slicing never raises.\<close>

definition slice_to :: "'a list \<Rightarrow> int \<Rightarrow> 'a list" where
  "slice_to xs k =
     (if k < 0 then take (nat (int (length xs) + k)) xs else take (nat k) xs)"

text \<open>\<open>xs[-1]\<close>: raises \<open>IndexError\<close> on the empty list.\<close>

definition last_item :: "'a list \<Rightarrow> py_error + 'a" where
  "last_item xs = (if xs = [] then Inl IndexError else Inr (last xs))"

section \<open>The threat correlator (correlator.py)\<close>

text \<open>
  A stored entry and a reported relation are Python dictionaries with fixed keys; the
  metadata dictionary and the timestamp are left abstract (\<open>'m\<close>, \<open>'t\<close>).
  The \<open>defaultdict(list)\<close> is an association list in key insertion order.
\<close>

record ('m, 't) threat_entry =
  entry_ioc :: string
  entry_type :: string
  entry_metadata :: 'm
  entry_timestamp :: 't

record 'm related_threat =
  rel_ioc :: string
  rel_type :: string
  similarity :: real
  relationship :: string
  rel_metadata :: 'm

record correlation_rule =
  enabled :: "bool option"
  confidence :: real
  time_window :: "int option"

record ('m, 't) threat_correlator =
  threat_database :: "(string \<times> ('m, 't) threat_entry list) list"
  correlation_rules :: "(string \<times> correlation_rule) list"

record statistics =
  total_threats :: nat
  by_type :: "(string \<times> nat) list"
  correlation_rules_active :: nat

definition initialize_rules :: "(string \<times> correlation_rule) list" where
  "initialize_rules =
     [(''ip_to_domain'', \<lparr>enabled = Some True, confidence = 0.8, time_window = None\<rparr>),
      (''hash_to_campaign'', \<lparr>enabled = Some True, confidence = 0.9, time_window = None\<rparr>),
      (''temporal_clustering'',
         \<lparr>enabled = Some True, confidence = 0.7, time_window = Some (24 * 3600)\<rparr>)]"

definition init_correlator :: "('m, 't) threat_correlator" where
  "init_correlator = \<lparr>threat_database = [], correlation_rules = initialize_rules\<rparr>"

text \<open>\<open>db[key].append(entry)\<close> on a \<open>defaultdict(list)\<close>: a missing key is created.\<close>

fun append_entry ::
  "string \<Rightarrow> 'e \<Rightarrow> (string \<times> 'e list) list \<Rightarrow> (string \<times> 'e list) list" where
  "append_entry key e [] = [(key, [e])]"
| "append_entry key e ((k, es) # db) =
     (if k = key then (k, es @ [e]) # db else (k, es) # append_entry key e db)"

text \<open>\<open>db.get(key, [])\<close>: a missing key is not created.\<close>

definition db_get :: "(string \<times> 'e list) list \<Rightarrow> string \<Rightarrow> 'e list" where
  "db_get db key = (case map_of db key of None \<Rightarrow> [] | Some es \<Rightarrow> es)"

text \<open>\<open>add_threat\<close>; the value of \<open>datetime.utcnow()\<close> is the parameter \<open>now\<close>.\<close>

definition add_threat ::
  "('m, 't) threat_correlator \<Rightarrow> string \<Rightarrow> string \<Rightarrow> 'm \<Rightarrow> 't \<Rightarrow> ('m, 't) threat_correlator" where
  "add_threat self ioc ioc_type metadata now =
     (let threat_entry = \<lparr>entry_ioc = ioc, entry_type = ioc_type,
                           entry_metadata = metadata, entry_timestamp = now\<rparr>
      in self\<lparr>threat_database := append_entry ioc_type threat_entry (threat_database self)\<rparr>)"

text \<open>
  The body of the \<open>try\<close> block of \<open>_calculate_similarity\<close>: \<open>Inr (Some r)\<close> is
  \<open>return r\<close>, \<open>Inr None\<close> is leaving the block without returning.
\<close>

definition subnet_check :: "string \<Rightarrow> string \<Rightarrow> py_error + real option" where
  "subnet_check ioc1 ioc2 =
     (let parts1 = split CHR ''.'' ioc1;
          parts2 = split CHR ''.'' ioc2
      in if slice_to parts1 3 = slice_to parts2 3 then Inr (Some 0.8)
         else if slice_to parts1 2 = slice_to parts2 2 then Inr (Some 0.6)
         else Inr None)"

definition calculate_similarity :: "string \<Rightarrow> string \<Rightarrow> string \<Rightarrow> py_error + real" where
  "calculate_similarity ioc1 ioc2 ioc_type =
     (if ioc_type = ''ip'' then
        (case subnet_check ioc1 ioc2 of
           Inr (Some r) \<Rightarrow> Inr r
         | Inr None \<Rightarrow> Inr 0.3
         | Inl _ \<Rightarrow> Inr 0.3)
      else if ioc_type = ''domain'' then
        (case last_item (split CHR ''.'' ioc1) of
           Inl e \<Rightarrow> Inl e
         | Inr tld1 \<Rightarrow>
             (case last_item (split CHR ''.'' ioc2) of
                Inl e \<Rightarrow> Inl e
              | Inr tld2 \<Rightarrow> if tld1 = tld2 then Inr 0.6 else Inr 0.3))
      else if ioc_type \<in> set [''hash_md5'', ''hash_sha1'', ''hash_sha256''] then
        Inr (if ioc1 = ioc2 then 1.0 else 0.0)
      else Inr 0.3)"

text \<open>The first loop of \<open>find_related\<close>, over the stored entries of the queried type.\<close>

fun same_type_scan ::
  "string \<Rightarrow> string \<Rightarrow> ('m, 't) threat_entry list \<Rightarrow> py_error + 'm related_threat list" where
  "same_type_scan ioc ioc_type [] = Inr []"
| "same_type_scan ioc ioc_type (threat # rest) =
     (if entry_ioc threat \<noteq> ioc then
        (case calculate_similarity ioc (entry_ioc threat) ioc_type of
           Inl e \<Rightarrow> Inl e
         | Inr sim \<Rightarrow>
             (case same_type_scan ioc ioc_type rest of
                Inl e \<Rightarrow> Inl e
              | Inr found \<Rightarrow>
                  Inr (if sim > 0.5
                       then \<lparr>rel_ioc = entry_ioc threat, rel_type = entry_type threat,
                             similarity = sim, relationship = ''same_type'',
                             rel_metadata = entry_metadata threat\<rparr> # found
                       else found)))
      else same_type_scan ioc ioc_type rest)"

definition find_cross_type_correlations ::
  "('m, 't) threat_correlator \<Rightarrow> string \<Rightarrow> string \<Rightarrow> 'm related_threat list" where
  "find_cross_type_correlations self ioc ioc_type =
     (if ioc_type = ''ip'' then
        map (\<lambda>domain_threat.
               \<lparr>rel_ioc = entry_ioc domain_threat, rel_type = ''domain'',
                similarity = 0.7, relationship = ''dns_resolution'',
                rel_metadata = entry_metadata domain_threat\<rparr>)
            (db_get (threat_database self) ''domain'')
      else [])"

text \<open>
  \<open>xs.sort(key=lambda x: x["similarity"], reverse=True)\<close>: Python's sort is stable, also
  with \<open>reverse=True\<close>, so it is the stable sort by the negated key.
\<close>

definition sort_by_similarity_desc :: "'m related_threat list \<Rightarrow> 'm related_threat list" where
  "sort_by_similarity_desc xs = sort_key (\<lambda>x. - similarity x) xs"

definition find_related ::
  "('m, 't) threat_correlator \<Rightarrow> string \<Rightarrow> string \<Rightarrow> int \<Rightarrow> py_error + 'm related_threat list" where
  "find_related self ioc ioc_type max_results =
     (case same_type_scan ioc ioc_type (db_get (threat_database self) ioc_type) of
        Inl e \<Rightarrow> Inl e
      | Inr related_threats \<Rightarrow>
          (let cross_type_related = find_cross_type_correlations self ioc ioc_type;
               related_threats = related_threats @ cross_type_related;
               related_threats = sort_by_similarity_desc related_threats
           in Inr (slice_to related_threats max_results)))"

definition get_statistics :: "('m, 't) threat_correlator \<Rightarrow> statistics" where
  "get_statistics self =
     \<lparr>total_threats = sum_list (map (\<lambda>(ioc_type, threats). length threats) (threat_database self)),
      by_type = map (\<lambda>(ioc_type, threats). (ioc_type, length threats)) (threat_database self),
      correlation_rules_active =
        length (filter (\<lambda>(name, rule). (case enabled rule of None \<Rightarrow> False | Some b \<Rightarrow> b))
                  (correlation_rules self))\<rparr>"

section \<open>The MITRE mapper (mitre.py)\<close>

text \<open>
  A description is a Python \<open>str\<close>: the list of its Unicode code points. The keywords
  are ASCII literals, given by their code points (\<open>code_points\<close>). Technique ids and
  tactic names are ASCII literals that the code only compares and returns.

  \<open>description.lower()\<close> is a built-in of Python, not code of this repository, and is
  the parameter \<open>lower\<close> of \<open>map_to_mitre\<close>; what is proved holds for every function
  \<open>lower\<close>. The only fact about \<open>str.lower()\<close> that a statement uses is stated there
  as a premise: on a string of ASCII code points it maps A to Z to a to z
  (\<open>ascii_lower\<close>) and leaves every other character as it is.

  \<open>str_contains k s\<close> is Python's \<open>k in s\<close>.
\<close>

definition code_points :: "string \<Rightarrow> nat list" where
  "code_points s = map of_char s"

definition ascii_lower :: "nat \<Rightarrow> nat" where
  "ascii_lower c = (if 65 \<le> c \<and> c \<le> 90 then c + 32 else c)"

fun starts_with :: "'a list \<Rightarrow> 'a list \<Rightarrow> bool" where
  "starts_with [] s = True"
| "starts_with (k # ks) [] = False"
| "starts_with (k # ks) (c # cs) = (k = c \<and> starts_with ks cs)"

fun str_contains :: "'a list \<Rightarrow> 'a list \<Rightarrow> bool" where
  "str_contains k [] = (k = [])"
| "str_contains k (c # cs) = (starts_with k (c # cs) \<or> str_contains k cs)"

text \<open>The two class-level dictionaries, in declaration order.\<close>

definition TECHNIQUE_KEYWORDS :: "(string \<times> nat list list) list" where
  "TECHNIQUE_KEYWORDS =
     [(''T1566'', map code_points [''phishing'', ''spearphishing'', ''email attack'']),
      (''T1059'', map code_points [''command'', ''script'', ''powershell'', ''cmd'', ''bash'']),
      (''T1105'', map code_points [''download'', ''ingress tool transfer'', ''file transfer'']),
      (''T1071'', map code_points [''http'', ''https'', ''web protocol'', ''application layer'']),
      (''T1090'', map code_points [''proxy'', ''vpn'', ''tunnel'']),
      (''T1189'', map code_points [''drive-by'', ''watering hole'', ''compromised website'']),
      (''T1190'', map code_points [''exploit'', ''vulnerability'', ''cve'']),
      (''T1133'', map code_points [''vpn'', ''remote access'', ''external remote services'']),
      (''T1078'', map code_points [''valid account'', ''credential'', ''stolen credentials'']),
      (''T1110'', map code_points [''brute force'', ''password spray'', ''credential stuffing'']),
      (''T1486'', map code_points [''ransomware'', ''encryption'', ''data encrypted'']),
      (''T1485'', map code_points [''data destruction'', ''delete'', ''wipe'']),
      (''T1567'', map code_points [''exfiltration'', ''data theft'', ''upload'']),
      (''T1021'', map code_points [''rdp'', ''remote desktop'', ''remote services'']),
      (''T1003'', map code_points [''credential dump'', ''lsass'', ''mimikatz''])]"

definition TACTIC_MAPPING :: "(string \<times> string) list" where
  "TACTIC_MAPPING =
     [(''T1566'', ''Initial Access''),
      (''T1059'', ''Execution''),
      (''T1105'', ''Command and Control''),
      (''T1071'', ''Command and Control''),
      (''T1090'', ''Command and Control''),
      (''T1189'', ''Initial Access''),
      (''T1190'', ''Initial Access''),
      (''T1133'', ''Persistence''),
      (''T1078'', ''Defense Evasion''),
      (''T1110'', ''Credential Access''),
      (''T1486'', ''Impact''),
      (''T1485'', ''Impact''),
      (''T1567'', ''Exfiltration''),
      (''T1021'', ''Lateral Movement''),
      (''T1003'', ''Credential Access'')]"

definition technique_names :: "(string \<times> string) list" where
  "technique_names =
     [(''T1566'', ''Phishing''),
      (''T1059'', ''Command and Scripting Interpreter''),
      (''T1105'', ''Ingress Tool Transfer''),
      (''T1071'', ''Application Layer Protocol''),
      (''T1090'', ''Proxy''),
      (''T1189'', ''Drive-by Compromise''),
      (''T1190'', ''Exploit Public-Facing Application''),
      (''T1133'', ''External Remote Services''),
      (''T1078'', ''Valid Accounts''),
      (''T1110'', ''Brute Force''),
      (''T1486'', ''Data Encrypted for Impact''),
      (''T1485'', ''Data Destruction''),
      (''T1567'', ''Exfiltration Over Web Service''),
      (''T1021'', ''Remote Services''),
      (''T1003'', ''OS Credential Dumping'')]"

record technique_detail =
  detail_id :: string
  detail_name :: string
  detail_tactic :: string
  detail_url :: string

record mitre_mapping =
  techniques :: "string list"
  tactics :: "string list"
  details :: "technique_detail list"

definition get_technique_name :: "string \<Rightarrow> string" where
  "get_technique_name technique_id =
     (case map_of technique_names technique_id of
        None \<Rightarrow> ''Unknown Technique''
      | Some name \<Rightarrow> name)"

definition get_technique_details :: "string list \<Rightarrow> technique_detail list" where
  "get_technique_details technique_ids =
     map (\<lambda>tech_id.
            \<lparr>detail_id = tech_id,
             detail_name = get_technique_name tech_id,
             detail_tactic =
               (case map_of TACTIC_MAPPING tech_id of None \<Rightarrow> ''Unknown'' | Some t \<Rightarrow> t),
             detail_url = ''https://attack.mitre.org/techniques/'' @ tech_id @ ''/''\<rparr>)
         technique_ids"

text \<open>
  The body run on a keyword match: the technique is appended unless already recorded,
  and then its tactic, when the lookup gives a non-empty string not yet recorded.
\<close>

definition record_match ::
  "(string \<times> string) list \<Rightarrow> string \<Rightarrow> string list \<times> string list \<Rightarrow> string list \<times> string list" where
  "record_match tactic_mapping technique_id st =
     (case st of (matched_techniques, matched_tactics) \<Rightarrow>
        if technique_id \<notin> set matched_techniques then
          (let matched_techniques = matched_techniques @ [technique_id]
           in case map_of tactic_mapping technique_id of
                None \<Rightarrow> (matched_techniques, matched_tactics)
              | Some tactic \<Rightarrow>
                  if tactic \<noteq> [] \<and> tactic \<notin> set matched_tactics
                  then (matched_techniques, matched_tactics @ [tactic])
                  else (matched_techniques, matched_tactics))
        else (matched_techniques, matched_tactics))"

text \<open>The inner loop over one technique's keywords: the first match ends it (\<open>break\<close>).\<close>

fun scan_keywords ::
  "(string \<times> string) list \<Rightarrow> nat list \<Rightarrow> string \<Rightarrow> nat list list \<Rightarrow>
   string list \<times> string list \<Rightarrow> string list \<times> string list" where
  "scan_keywords tactic_mapping description_lower technique_id [] st = st"
| "scan_keywords tactic_mapping description_lower technique_id (keyword # keywords) st =
     (if str_contains keyword description_lower
      then record_match tactic_mapping technique_id st
      else scan_keywords tactic_mapping description_lower technique_id keywords st)"

text \<open>The outer loop over the techniques of the keyword table, in its order.\<close>

fun scan_techniques ::
  "(string \<times> string) list \<Rightarrow> nat list \<Rightarrow> (string \<times> nat list list) list \<Rightarrow>
   string list \<times> string list \<Rightarrow> string list \<times> string list" where
  "scan_techniques tactic_mapping description_lower [] st = st"
| "scan_techniques tactic_mapping description_lower ((technique_id, keywords) # rest) st =
     scan_techniques tactic_mapping description_lower rest
       (scan_keywords tactic_mapping description_lower technique_id keywords st)"

definition map_to_mitre :: "(nat list \<Rightarrow> nat list) \<Rightarrow> nat list \<Rightarrow> mitre_mapping" where
  "map_to_mitre lower description =
     (let description_lower = lower description;
          (matched_techniques, matched_tactics) =
             scan_techniques TACTIC_MAPPING description_lower TECHNIQUE_KEYWORDS ([], [])
      in \<lparr>techniques = matched_techniques,
          tactics = matched_tactics,
          details = get_technique_details matched_techniques\<rparr>)"

text \<open>
  Vocabulary for stating what the scan computes: \<open>first_seen xs\<close> keeps the first
  occurrence of every element of \<open>xs\<close>, in order; \<open>tactic_of m t\<close> is \<open>m.get(t)\<close> with
  the empty string for a missing key.
\<close>

definition first_seen :: "'a list \<Rightarrow> 'a list" where
  "first_seen xs = rev (remdups (rev xs))"

definition tactic_of :: "(string \<times> string) list \<Rightarrow> string \<Rightarrow> string" where
  "tactic_of tactic_mapping technique_id =
     (case map_of tactic_mapping technique_id of None \<Rightarrow> [] | Some tactic \<Rightarrow> tactic)"

text \<open>
  The loop invariant of the scan: the recorded tactics are the first occurrences of the
  non-empty tactics of the recorded techniques.
\<close>

definition tactics_follow :: "(string \<times> string) list \<Rightarrow> string list \<times> string list \<Rightarrow> bool" where
  "tactics_follow tm st =
     (snd st = first_seen (filter (\<lambda>t. t \<noteq> []) (map (tactic_of tm) (fst st))))"

text \<open>
  The score that \<open>_calculate_similarity\<close> returns, as a plain number; the lemma
  \<open>calculate_similarity_value\<close> shows that the function always returns this score and
  never raises.
\<close>

definition similarity_of :: "string \<Rightarrow> string \<Rightarrow> string \<Rightarrow> real" where
  "similarity_of ioc1 ioc2 ioc_type =
     (case calculate_similarity ioc1 ioc2 ioc_type of Inl e \<Rightarrow> 0 | Inr s \<Rightarrow> s)"

section \<open>Facts about the built-ins and the similarity heuristic\<close>

lemma split_not_Nil: "split sep s \<noteq> []"
  by (induction s) (auto split: list.splits)

lemma last_item_split: "last_item (split sep s) = Inr (last (split sep s))"
  by (simp add: last_item_def split_not_Nil)

lemma subnet_check_eq:
  "subnet_check a b =
     Inr (if take 3 (split CHR ''.'' a) = take 3 (split CHR ''.'' b) then Some 0.8
          else if take 2 (split CHR ''.'' a) = take 2 (split CHR ''.'' b) then Some 0.6
          else None)"
  by (simp add: subnet_check_def slice_to_def Let_def)

lemma calculate_similarity_ip:
  "calculate_similarity a b ''ip'' =
     Inr (if take 3 (split CHR ''.'' a) = take 3 (split CHR ''.'' b) then 0.8
          else if take 2 (split CHR ''.'' a) = take 2 (split CHR ''.'' b) then 0.6
          else 0.3)"
  unfolding calculate_similarity_def subnet_check_eq by simp

lemma calculate_similarity_domain:
  "calculate_similarity a b ''domain'' =
     Inr (if last (split CHR ''.'' a) = last (split CHR ''.'' b) then 0.6 else 0.3)"
  unfolding calculate_similarity_def last_item_split by simp

lemma calculate_similarity_hash:
  "t \<in> {''hash_md5'', ''hash_sha1'', ''hash_sha256''} \<Longrightarrow>
     calculate_similarity a b t = Inr (if a = b then 1 else 0)"
  unfolding calculate_similarity_def by auto

lemma calculate_similarity_other:
  "t \<noteq> ''ip'' \<Longrightarrow> t \<noteq> ''domain'' \<Longrightarrow> t \<notin> {''hash_md5'', ''hash_sha1'', ''hash_sha256''} \<Longrightarrow>
     calculate_similarity a b t = Inr 0.3"
  unfolding calculate_similarity_def by simp

lemma calculate_similarity_total: "\<exists>r. calculate_similarity a b t = Inr r"
proof -
  consider "t = ''ip''" | "t = ''domain''" | "t \<in> {''hash_md5'', ''hash_sha1'', ''hash_sha256''}"
    | "t \<noteq> ''ip''" "t \<noteq> ''domain''" "t \<notin> {''hash_md5'', ''hash_sha1'', ''hash_sha256''}"
    by blast
  then show ?thesis
  proof cases
    case 1
    then show ?thesis using calculate_similarity_ip by blast
  next
    case 2
    then show ?thesis using calculate_similarity_domain by blast
  next
    case 3
    then show ?thesis using calculate_similarity_hash by blast
  next
    case 4
    then show ?thesis using calculate_similarity_other by blast
  qed
qed

section \<open>Facts about the scans, the sort and the slice\<close>

lemma slice_to_nonneg: "0 \<le> k \<Longrightarrow> slice_to xs k = take (nat k) xs"
  by (simp add: slice_to_def)


lemma prefix_slice_to: "prefix (slice_to xs k) xs"
  by (simp add: slice_to_def take_is_prefix)

lemma length_slice_to: "0 \<le> k \<Longrightarrow> length (slice_to xs k) \<le> nat k"
  by (simp add: slice_to_def)


lemma same_type_scan_Cons:
  assumes "same_type_scan ioc t rest = Inr found'"
    and "calculate_similarity ioc (entry_ioc threat) t = Inr s"
  shows "same_type_scan ioc t (threat # rest) =
           Inr (if entry_ioc threat \<noteq> ioc \<and> 0.5 < s
                then \<lparr>rel_ioc = entry_ioc threat, rel_type = entry_type threat,
                      similarity = s, relationship = ''same_type'',
                      rel_metadata = entry_metadata threat\<rparr> # found'
                else found')"
  using assms by simp



lemma find_related_eq:
  "same_type_scan ioc t (db_get (threat_database self) t) = Inr same \<Longrightarrow>
   find_related self ioc t m =
     Inr (slice_to (sort_by_similarity_desc (same @ find_cross_type_correlations self ioc t)) m)"
  by (simp add: find_related_def Let_def)


lemma sorted_sort_by_similarity_desc:
  "sorted_wrt (\<lambda>x y. similarity y \<le> similarity x) (sort_by_similarity_desc xs)"
proof -
  have "sorted (map (\<lambda>x. - similarity x) (sort_key (\<lambda>x. - similarity x) xs))"
    by (rule sorted_sort_key)
  then show ?thesis
    by (simp add: sort_by_similarity_desc_def sorted_map)
qed

lemma stable_sort_by_similarity_desc:
  "filter (\<lambda>x. similarity x = k) (sort_by_similarity_desc xs) = filter (\<lambda>x. similarity x = k) xs"
proof -
  have "filter (\<lambda>x. - similarity x = - k) (sort_key (\<lambda>x. - similarity x) xs)
          = filter (\<lambda>x. - similarity x = - k) xs"
    by (rule sort_key_stable)
  then show ?thesis by (simp add: sort_by_similarity_desc_def)
qed

lemma sorted_wrt_prefix: "prefix xs ys \<Longrightarrow> sorted_wrt P ys \<Longrightarrow> sorted_wrt P xs"
  by (auto simp: prefix_def sorted_wrt_append)

section \<open>Claims about the correlator\<close>




section \<open>Claims about the similarity heuristic\<close>

lemma split_inject: "split sep s = split sep t \<Longrightarrow> s = t"
proof (induction s arbitrary: t)
  case Nil
  then show ?case
    using split_not_Nil[of sep "tl t"]
    by (cases t) (auto split: if_splits list.splits)
next
  case (Cons c cs)
  show ?case
  proof (cases t)
    case Nil
    with Cons.prems show ?thesis
      using split_not_Nil[of sep cs]
      by (auto split: if_splits list.splits)
  next
    case (Cons d ds)
    with Cons.prems Cons.IH[of ds] show ?thesis
      using split_not_Nil[of sep cs] split_not_Nil[of sep ds]
      by (auto split: if_splits list.splits)
  qed
qed

lemma take_neq_length:
  "length xs < n \<Longrightarrow> n \<le> length ys \<Longrightarrow> take n xs \<noteq> take n ys"
proof
  assume a: "length xs < n" "n \<le> length ys" "take n xs = take n ys"
  then have "length (take n xs) = length (take n ys)" by simp
  with a(1,2) show False by simp
qed

text \<open>
  Claim C4, as stated: with type \<open>ip\<close>, a pair in which either string is a malformed IP
  (fewer than 3 dot-separated octets) does not raise and gets the default score 0.3.
  This fails: the slices \<open>parts[:3]\<close> and \<open>parts[:2]\<close> never raise on a short list,
  so nothing detects the malformed string. \<open>"10.0"\<close> has two components and agrees with
  \<open>"10.0.0.1"\<close> on the first two, so the score is 0.6.
\<close>

theorem ip_similarity_malformed_counterexample:
  "length (split CHR ''.'' ''10.0'') = 2 \<and>
   calculate_similarity ''10.0'' ''10.0.0.1'' ''ip'' = Inr 0.6"
  by (simp add: calculate_similarity_ip)

text \<open>
  Claim C4, amended: with type \<open>ip\<close> the similarity never raises, for any two strings.
  It is 0.8 when the lists of the (at most three) leading dot-separated components of
  the two strings are equal, otherwise 0.6 when the lists of the (at most two) leading
  components are equal, otherwise the default 0.3. The number of components is never
  checked. In particular two different strings that both have fewer than 3 components
  get 0.3, and so does a string without a dot against a string with one.
\<close>

theorem ip_similarity_prefix_rule:
  "calculate_similarity a b ''ip'' =
     Inr (if take 3 (split CHR ''.'' a) = take 3 (split CHR ''.'' b) then 0.8
          else if take 2 (split CHR ''.'' a) = take 2 (split CHR ''.'' b) then 0.6
          else 0.3)
   \<and> (length (split CHR ''.'' a) < 3 \<and> length (split CHR ''.'' b) < 3 \<and> a \<noteq> b \<longrightarrow>
        calculate_similarity a b ''ip'' = Inr 0.3)
   \<and> (length (split CHR ''.'' a) < 2 \<and> 2 \<le> length (split CHR ''.'' b) \<longrightarrow>
        calculate_similarity a b ''ip'' = Inr 0.3)"
proof -
  let ?p = "split CHR ''.'' a" and ?q = "split CHR ''.'' b"
  have both: "take 3 ?p \<noteq> take 3 ?q \<and> take 2 ?p \<noteq> take 2 ?q"
    if "length ?p < 3" "length ?q < 3" "a \<noteq> b"
  proof -
    from that(3) have ne: "?p \<noteq> ?q" using split_inject by blast
    from that(1,2) have "take 3 ?p = ?p" "take 3 ?q = ?q" "take 2 ?p = ?p" "take 2 ?q = ?q"
      by simp_all
    with ne show ?thesis by simp
  qed
  have one: "take 3 ?p \<noteq> take 3 ?q \<and> take 2 ?p \<noteq> take 2 ?q"
    if "length ?p < 2" "2 \<le> length ?q"
  proof -
    have "take 2 ?p \<noteq> take 2 ?q" using that by (rule take_neq_length)
    moreover have "take 3 ?p \<noteq> take 3 ?q"
    proof
      assume "take 3 ?p = take 3 ?q"
      then have "length (take 3 ?p) = length (take 3 ?q)" by simp
      with that show False by simp
    qed
    ultimately show ?thesis by simp
  qed
  show ?thesis using both one by (simp add: calculate_similarity_ip)
qed

theorem ip_similarity_prefix_rule_witness:
  "length (split CHR ''.'' ''10.0'') < 3 \<and> length (split CHR ''.'' ''10.1'') < 3
   \<and> ''10.0'' \<noteq> ''10.1''
   \<and> calculate_similarity ''10.0'' ''10.1'' ''ip'' = Inr 0.3
   \<and> length (split CHR ''.'' ''10'') < 2 \<and> 2 \<le> length (split CHR ''.'' ''10.0.0.1'')
   \<and> calculate_similarity ''10'' ''10.0.0.1'' ''ip'' = Inr 0.3"
  using ip_similarity_prefix_rule[of "''10.0''" "''10.1''"]
        ip_similarity_prefix_rule[of "''10''" "''10.0.0.1''"]
  by simp

text \<open>
  Claim C7: for each of the hash types \<open>hash_md5\<close>, \<open>hash_sha1\<close>, \<open>hash_sha256\<close> and
  every pair of strings, the similarity is 1.0 when the strings are equal and 0.0
  otherwise; it never raises and is never the default 0.3.
\<close>

theorem hash_similarity_exact:
  assumes "ioc_type \<in> set [''hash_md5'', ''hash_sha1'', ''hash_sha256'']"
  shows "calculate_similarity a b ioc_type = Inr (if a = b then 1.0 else 0.0)
         \<and> calculate_similarity a b ioc_type \<noteq> Inr 0.3"
proof -
  from assms have "ioc_type \<in> {''hash_md5'', ''hash_sha1'', ''hash_sha256''}" by simp
  then have "calculate_similarity a b ioc_type = Inr (if a = b then 1 else 0)"
    by (rule calculate_similarity_hash)
  then show ?thesis by simp
qed

theorem hash_similarity_exact_witness:
  "''hash_md5'' \<in> set [''hash_md5'', ''hash_sha1'', ''hash_sha256'']
   \<and> calculate_similarity ''d41d8cd98f00b204e9800998ecf8427e''
         ''d41d8cd98f00b204e9800998ecf8427e'' ''hash_md5'' = Inr 1
   \<and> calculate_similarity ''d41d8cd98f00b204e9800998ecf8427e''
         ''d41d8cd98f00b204e9800998ecf8427f'' ''hash_md5'' = Inr 0"
  using hash_similarity_exact[of "''hash_md5''" "''d41d8cd98f00b204e9800998ecf8427e''"
          "''d41d8cd98f00b204e9800998ecf8427e''"]
        hash_similarity_exact[of "''hash_md5''" "''d41d8cd98f00b204e9800998ecf8427e''"
          "''d41d8cd98f00b204e9800998ecf8427f''"]
  by simp

text \<open>
  Claim C9: the similarity is symmetric: for all strings \<open>a\<close>, \<open>b\<close> and every type,
  \<open>_calculate_similarity(a, b, t)\<close> and \<open>_calculate_similarity(b, a, t)\<close> give the same
  result.
\<close>

theorem similarity_symmetric:
  "calculate_similarity a b ioc_type = calculate_similarity b a ioc_type"
proof -
  consider "ioc_type = ''ip''" | "ioc_type = ''domain''"
    | "ioc_type \<in> {''hash_md5'', ''hash_sha1'', ''hash_sha256''}"
    | "ioc_type \<noteq> ''ip''" "ioc_type \<noteq> ''domain''"
      "ioc_type \<notin> {''hash_md5'', ''hash_sha1'', ''hash_sha256''}"
    by blast
  then show ?thesis
  proof cases
    case 1
    have "(take n (split CHR ''.'' a) = take n (split CHR ''.'' b))
            = (take n (split CHR ''.'' b) = take n (split CHR ''.'' a))" for n
      by (rule eq_commute)
    then show ?thesis unfolding 1 calculate_similarity_ip by simp
  next
    case 2
    have "(last (split CHR ''.'' a) = last (split CHR ''.'' b))
            = (last (split CHR ''.'' b) = last (split CHR ''.'' a))"
      by (rule eq_commute)
    then show ?thesis unfolding 2 calculate_similarity_domain by simp
  next
    case 3
    have "(a = b) = (b = a)" by (rule eq_commute)
    then show ?thesis
      using calculate_similarity_hash[OF 3, of a b] calculate_similarity_hash[OF 3, of b a]
      by simp
  next
    case 4
    then show ?thesis by (simp add: calculate_similarity_other)
  qed
qed

theorem similarity_symmetric_witness:
  "calculate_similarity ''192.168.1.5'' ''192.168.2.9'' ''ip'' = Inr 0.6
   \<and> calculate_similarity ''192.168.2.9'' ''192.168.1.5'' ''ip'' = Inr 0.6"
proof -
  have "calculate_similarity ''192.168.1.5'' ''192.168.2.9'' ''ip'' = Inr 0.6"
    by (simp add: calculate_similarity_ip)
  then show ?thesis
    using similarity_symmetric[of "''192.168.1.5''" "''192.168.2.9''" "''ip''"] by simp
qed

section \<open>Claims about recording threats\<close>

lemma total_append_entry:
  "sum_list (map (\<lambda>(ioc_type, threats). length threats) (append_entry key e db)) =
     Suc (sum_list (map (\<lambda>(ioc_type, threats). length threats) db))"
  by (induction db) auto

lemma db_get_append_entry_same:
  "db_get (append_entry key e db) key = db_get db key @ [e]"
  by (induction db) (auto simp: db_get_def)

lemma db_get_append_entry_other:
  "key' \<noteq> key \<Longrightarrow> db_get (append_entry key e db) key' = db_get db key'"
  by (induction db) (auto simp: db_get_def)

lemma threat_database_add_threat:
  "threat_database (add_threat self ioc ioc_type metadata now) =
     append_entry ioc_type
       \<lparr>entry_ioc = ioc, entry_type = ioc_type, entry_metadata = metadata, entry_timestamp = now\<rparr>
       (threat_database self)"
  by (simp add: add_threat_def)

lemma total_threats_eq:
  "total_threats (get_statistics self) =
     sum_list (map (\<lambda>(ioc_type, threats). length threats) (threat_database self))"
  by (simp add: get_statistics_def)

text \<open>
  Claim C8: \<open>add_threat\<close> does not deduplicate. From any store, two calls with the same
  IOC value, type and metadata append two entries to the list of that type, after the
  entries already there, and \<open>total_threats\<close> of \<open>get_statistics\<close> grows by exactly 2.
\<close>

theorem add_threat_twice_not_deduplicated:
  "total_threats (get_statistics
       (add_threat (add_threat self ioc ioc_type metadata now1) ioc ioc_type metadata now2)) =
     total_threats (get_statistics self) + 2
   \<and> db_get (threat_database
         (add_threat (add_threat self ioc ioc_type metadata now1) ioc ioc_type metadata now2))
       ioc_type =
     db_get (threat_database self) ioc_type @
       [\<lparr>entry_ioc = ioc, entry_type = ioc_type, entry_metadata = metadata, entry_timestamp = now1\<rparr>,
        \<lparr>entry_ioc = ioc, entry_type = ioc_type, entry_metadata = metadata, entry_timestamp = now2\<rparr>]"
  by (simp add: total_threats_eq threat_database_add_threat total_append_entry
        db_get_append_entry_same)

theorem add_threat_twice_not_deduplicated_witness:
  "total_threats (get_statistics
       (add_threat (add_threat (init_correlator :: (unit, nat) threat_correlator)
          ''10.0.0.9'' ''ip'' () 5) ''10.0.0.9'' ''ip'' () 5)) = 2
   \<and> total_threats (get_statistics (init_correlator :: (unit, nat) threat_correlator)) = 0"
proof -
  have "total_threats (get_statistics (init_correlator :: (unit, nat) threat_correlator)) = 0"
    by (simp add: get_statistics_def init_correlator_def)
  then show ?thesis
    using add_threat_twice_not_deduplicated
            [of "init_correlator :: (unit, nat) threat_correlator" "''10.0.0.9''" "''ip''" "()" 5 5]
    by simp
qed

section \<open>Claims about the threat score and the severity\<close>

lemma base_score_bounds:
  "50 \<le> (50::real) + real_of_int (min (int n * 5) 30)
   \<and> (50::real) + real_of_int (min (int n * 5) 30) \<le> 80"
  by (simp add: min_def)

lemma calculate_threat_score_eq:
  "calculate_threat_score (Some c) (Some ts) =
     min ((50 + real_of_int (min (int (length ts) * 5) 30)) * c) 100"
  by (simp add: calculate_threat_score_def Let_def)

lemma scaled_base_bounds:
  assumes "0 \<le> c" "c \<le> 1"
  shows "0 \<le> (50 + real_of_int (min (int n * 5) 30)) * c
         \<and> (50 + real_of_int (min (int n * 5) 30)) * c \<le> 80"
proof -
  let ?b = "(50::real) + real_of_int (min (int n * 5) 30)"
  have b: "50 \<le> ?b" "?b \<le> 80" using base_score_bounds[of n] by simp_all
  then have "0 \<le> ?b" by simp
  then have "0 \<le> ?b * c" using assms(1) by simp
  moreover have "?b * c \<le> ?b * 1" using assms(2) \<open>0 \<le> ?b\<close> by (rule mult_left_mono)
  ultimately show ?thesis using b(2) by simp
qed

text \<open>
  Claim C1: for every number \<open>n\<close> of matched techniques (the length of the technique
  list) and every confidence \<open>c\<close> with \<open>0 \<le> c \<le> 1\<close>, the threat score is
  \<open>min((50.0 + min(n * 5, 30)) * c, 100.0)\<close> and lies between 0 and 100; a confidence of
  zero gives the score 0.
\<close>

theorem threat_score_formula_and_range:
  assumes "0 \<le> c" "c \<le> 1"
  shows "calculate_threat_score (Some c) (Some ts) =
           min ((50.0 + real_of_int (min (int (length ts) * 5) 30)) * c) 100.0
         \<and> 0 \<le> calculate_threat_score (Some c) (Some ts)
         \<and> calculate_threat_score (Some c) (Some ts) \<le> 100
         \<and> calculate_threat_score (Some 0) (Some ts) = 0"
proof -
  have "calculate_threat_score (Some 0) (Some ts) = 0"
    by (simp add: calculate_threat_score_eq)
  then show ?thesis
    using scaled_base_bounds[OF assms, of "length ts"]
    by (simp add: calculate_threat_score_eq)
qed

theorem threat_score_formula_and_range_witness:
  "(0::real) \<le> 0.7 \<and> (0.7::real) \<le> 1
   \<and> calculate_threat_score (Some 0.7) (Some [''T1566'']) = 38.5
   \<and> calculate_threat_score (Some 0) (Some [''T1566'']) = 0"
  using threat_score_formula_and_range[of "0.7" "[''T1566'']"] by (simp add: min_def)

text \<open>
  Claim C2: the severity is a function of the score alone, read from inclusive lower
  bounds tried from the highest down: CRITICAL from 80, HIGH from 60, MEDIUM from 40,
  LOW from 20, INFO below. Each score belongs to exactly one tier, the tiers are the
  intervals cut at 20, 40, 60 and 80, the score 80.0 is CRITICAL and 79.999 is HIGH.
\<close>

theorem severity_tiers:
  "get_severity s =
     (if s \<ge> 80 then ''CRITICAL'' else if s \<ge> 60 then ''HIGH''
      else if s \<ge> 40 then ''MEDIUM'' else if s \<ge> 20 then ''LOW'' else ''INFO'')
   \<and> (get_severity s = ''CRITICAL'') = (80 \<le> s)
   \<and> (get_severity s = ''HIGH'') = (60 \<le> s \<and> s < 80)
   \<and> (get_severity s = ''MEDIUM'') = (40 \<le> s \<and> s < 60)
   \<and> (get_severity s = ''LOW'') = (20 \<le> s \<and> s < 40)
   \<and> (get_severity s = ''INFO'') = (s < 20)
   \<and> get_severity 80.0 = ''CRITICAL''
   \<and> get_severity 79.999 = ''HIGH''"
  by (simp add: get_severity_def)

theorem severity_tiers_witness:
  "get_severity 38.5 = ''LOW'' \<and> get_severity 20 = ''LOW'' \<and> get_severity 19.5 = ''INFO''
   \<and> get_severity 40 = ''MEDIUM'' \<and> get_severity 60 = ''HIGH'' \<and> get_severity 100 = ''CRITICAL''"
  using severity_tiers[of "38.5"] severity_tiers[of 20] severity_tiers[of "19.5"]
        severity_tiers[of 40] severity_tiers[of 60] severity_tiers[of 100]
  by simp

text \<open>
  Claim C10: for every number of matched techniques and every confidence \<open>c\<close> with
  \<open>0 \<le> c \<le> 1\<close>, the threat score is at most 80, so the final clamp at 100 leaves the
  product unchanged. The score 80, and with it the severity CRITICAL, is reached only
  with \<open>c = 1\<close> and at least 6 matched techniques (and is reached then).
\<close>

theorem threat_score_at_most_80:
  assumes "0 \<le> c" "c \<le> 1"
  shows "calculate_threat_score (Some c) (Some ts) \<le> 80
         \<and> calculate_threat_score (Some c) (Some ts) =
             (50.0 + real_of_int (min (int (length ts) * 5) 30)) * c
         \<and> (calculate_threat_score (Some c) (Some ts) = 80 \<longrightarrow> c = 1 \<and> 6 \<le> length ts)
         \<and> (get_severity (calculate_threat_score (Some c) (Some ts)) = ''CRITICAL''
              \<longrightarrow> c = 1 \<and> 6 \<le> length ts)
         \<and> (c = 1 \<and> 6 \<le> length ts \<longrightarrow> calculate_threat_score (Some c) (Some ts) = 80)"
proof -
  define b :: real where "b = 50 + real_of_int (min (int (length ts) * 5) 30)"
  define score where "score = calculate_threat_score (Some c) (Some ts)"
  have b: "50 \<le> b" "b \<le> 80"
    using base_score_bounds[of "length ts"] by (simp_all add: b_def)
  have sb: "0 \<le> b * c" "b * c \<le> 80"
    using scaled_base_bounds[OF assms, of "length ts"] by (simp_all add: b_def)
  have eq: "score = b * c"
    using sb by (simp add: score_def calculate_threat_score_eq b_def)
  have only: "c = 1 \<and> 6 \<le> length ts" if "80 \<le> score"
  proof -
    have "0 \<le> b" using b(1) by simp
    with assms(2) have "b * c \<le> b * 1" by (rule mult_left_mono)
    with that eq b(2) have b80: "b = 80" by simp
    with that eq have "80 \<le> 80 * c" by simp
    with assms(2) have c1: "c = 1" by simp
    from b80 have "real_of_int (min (int (length ts) * 5) 30) = 30" by (simp add: b_def)
    then have "min (int (length ts) * 5) 30 = 30" by linarith
    then have "30 \<le> int (length ts) * 5" by (simp add: min_def split: if_splits)
    then have "6 \<le> length ts" by linarith
    with c1 show ?thesis by simp
  qed
  have attained: "score = 80" if "c = 1 \<and> 6 \<le> length ts"
  proof -
    from that have "min (int (length ts) * 5) 30 = 30" by (simp add: min_def)
    then have "b = 80" by (simp add: b_def)
    with that eq show ?thesis by simp
  qed
  have crit: "(get_severity score = ''CRITICAL'') = (80 \<le> score)"
    by (simp add: get_severity_def)
  have c1: "score \<le> 80" using eq sb(2) by simp
  have c2: "score = (50.0 + real_of_int (min (int (length ts) * 5) 30)) * c"
    using eq by (simp add: b_def)
  have c3: "score = 80 \<longrightarrow> c = 1 \<and> 6 \<le> length ts" using only by simp
  have c4: "get_severity score = ''CRITICAL'' \<longrightarrow> c = 1 \<and> 6 \<le> length ts"
    using only crit by blast
  have c5: "c = 1 \<and> 6 \<le> length ts \<longrightarrow> score = 80" using attained by blast
  from c1 c2 c3 c4 c5 show ?thesis unfolding score_def by blast
qed

theorem threat_score_at_most_80_witness:
  "(0::real) \<le> 1 \<and> (1::real) \<le> 1
   \<and> calculate_threat_score (Some 1)
        (Some [''T1566'', ''T1059'', ''T1105'', ''T1071'', ''T1090'', ''T1189'']) = 80
   \<and> get_severity (calculate_threat_score (Some 1)
        (Some [''T1566'', ''T1059'', ''T1105'', ''T1071'', ''T1090'', ''T1189''])) = ''CRITICAL''
   \<and> 6 \<le> length [''T1566'', ''T1059'', ''T1105'', ''T1071'', ''T1090'', ''T1189'']"
proof -
  have v: "calculate_threat_score (Some 1)
        (Some [''T1566'', ''T1059'', ''T1105'', ''T1071'', ''T1090'', ''T1189'']) = 80"
    using threat_score_at_most_80
            [of 1 "[''T1566'', ''T1059'', ''T1105'', ''T1071'', ''T1090'', ''T1189'']"]
    by simp
  show ?thesis unfolding v by (simp add: get_severity_def)
qed

section \<open>Claims about the ranking of related threats\<close>

lemma calculate_similarity_value:
  "calculate_similarity a b t = Inr (similarity_of a b t)"
proof -
  obtain r where "calculate_similarity a b t = Inr r"
    using calculate_similarity_total by blast
  then show ?thesis by (simp add: similarity_of_def)
qed

lemma prefix_filter: "prefix xs ys \<Longrightarrow> prefix (filter P xs) (filter P ys)"
  by (auto simp: prefix_def)

lemma same_type_scan_stored_order:
  "same_type_scan ioc t threats =
     Inr (map (\<lambda>threat. \<lparr>rel_ioc = entry_ioc threat, rel_type = entry_type threat,
                           similarity = similarity_of ioc (entry_ioc threat) t,
                           relationship = ''same_type'',
                           rel_metadata = entry_metadata threat\<rparr>)
            (filter (\<lambda>threat. entry_ioc threat \<noteq> ioc
                                \<and> 0.5 < similarity_of ioc (entry_ioc threat) t) threats))"
proof (induction threats)
  case Nil
  show ?case by simp
next
  case (Cons threat rest)
  show ?case
    using same_type_scan_Cons[OF Cons.IH calculate_similarity_value, of threat]
    by simp
qed


text \<open>
  Claim C5: for every store and every query, the result of \<open>find_related\<close> is sorted by
  descending similarity; the sort is stable, so among results of equal similarity all
  same-type results come before all cross-type results and each group keeps insertion
  order; and the result is truncated to at most \<open>max_results\<close> elements.

  In the statement, \<open>same\<close> is the list of same-type results in the order in which the
  entries of the queried type were stored (the entries with another value than the query
  and a similarity above 0.5), \<open>cross\<close> is the list of cross-type results in the order
  in which the domain entries were stored, and \<open>ranked\<close> is the sorted list before
  truncation. The stored order is the insertion order: \<open>add_threat\<close> puts the new entry
  at the end of the list of its type. For a count \<open>n\<close> the result is the first \<open>n\<close>
  elements of \<open>ranked\<close>.
\<close>

theorem find_related_sorted_stable_truncated:
  "(\<exists>same cross ranked rs.
      same = map (\<lambda>threat. \<lparr>rel_ioc = entry_ioc threat, rel_type = entry_type threat,
                              similarity = similarity_of ioc (entry_ioc threat) ioc_type,
                              relationship = ''same_type'',
                              rel_metadata = entry_metadata threat\<rparr>)
               (filter (\<lambda>threat. entry_ioc threat \<noteq> ioc
                                   \<and> 0.5 < similarity_of ioc (entry_ioc threat) ioc_type)
                  (db_get (threat_database self) ioc_type))
    \<and> cross = (if ioc_type = ''ip''
               then map (\<lambda>domain_threat.
                           \<lparr>rel_ioc = entry_ioc domain_threat, rel_type = ''domain'',
                            similarity = 0.7, relationship = ''dns_resolution'',
                            rel_metadata = entry_metadata domain_threat\<rparr>)
                        (db_get (threat_database self) ''domain'')
               else [])
    \<and> sorted_wrt (\<lambda>x y. similarity y \<le> similarity x) ranked
    \<and> (\<forall>k. filter (\<lambda>x. similarity x = k) ranked =
             filter (\<lambda>x. similarity x = k) same @ filter (\<lambda>x. similarity x = k) cross)
    \<and> find_related self ioc ioc_type max_results = Inr rs
    \<and> rs = slice_to ranked max_results
    \<and> prefix rs ranked
    \<and> sorted_wrt (\<lambda>x y. similarity y \<le> similarity x) rs
    \<and> (\<forall>k. prefix (filter (\<lambda>x. similarity x = k) rs)
             (filter (\<lambda>x. similarity x = k) same @ filter (\<lambda>x. similarity x = k) cross))
    \<and> find_related self ioc ioc_type (int n) = Inr (take n ranked)
    \<and> length (take n ranked) \<le> n)
   \<and> calculate_similarity ioc v ioc_type = Inr (similarity_of ioc v ioc_type)
   \<and> db_get (threat_database (add_threat self v t metadata now)) t =
       db_get (threat_database self) t @
         [\<lparr>entry_ioc = v, entry_type = t, entry_metadata = metadata, entry_timestamp = now\<rparr>]"
proof -
  let ?same = "map (\<lambda>threat. \<lparr>rel_ioc = entry_ioc threat, rel_type = entry_type threat,
                              similarity = similarity_of ioc (entry_ioc threat) ioc_type,
                              relationship = ''same_type'',
                              rel_metadata = entry_metadata threat\<rparr>)
               (filter (\<lambda>threat. entry_ioc threat \<noteq> ioc
                                   \<and> 0.5 < similarity_of ioc (entry_ioc threat) ioc_type)
                  (db_get (threat_database self) ioc_type))"
  let ?cross = "if ioc_type = ''ip''
               then map (\<lambda>domain_threat.
                           \<lparr>rel_ioc = entry_ioc domain_threat, rel_type = ''domain'',
                            similarity = 0.7, relationship = ''dns_resolution'',
                            rel_metadata = entry_metadata domain_threat\<rparr>)
                        (db_get (threat_database self) ''domain'')
               else []"
  let ?ranked = "sort_by_similarity_desc (?same @ ?cross)"
  have same: "same_type_scan ioc ioc_type (db_get (threat_database self) ioc_type) = Inr ?same"
    by (rule same_type_scan_stored_order)
  have cross: "find_cross_type_correlations self ioc ioc_type = ?cross"
    by (simp add: find_cross_type_correlations_def)
  have res: "find_related self ioc ioc_type m = Inr (slice_to ?ranked m)" for m
    using find_related_eq[OF same, where m = m] unfolding cross .
  have srt: "sorted_wrt (\<lambda>x y. similarity y \<le> similarity x) ?ranked"
    by (rule sorted_sort_by_similarity_desc)
  have stable: "filter (\<lambda>x. similarity x = k) ?ranked =
             filter (\<lambda>x. similarity x = k) ?same @ filter (\<lambda>x. similarity x = k) ?cross" for k
    by (simp add: stable_sort_by_similarity_desc)
  have pre: "prefix (slice_to ?ranked max_results) ?ranked" by (rule prefix_slice_to)
  have srt': "sorted_wrt (\<lambda>x y. similarity y \<le> similarity x) (slice_to ?ranked max_results)"
    using pre srt by (rule sorted_wrt_prefix)
  have stable': "prefix (filter (\<lambda>x. similarity x = k) (slice_to ?ranked max_results))
             (filter (\<lambda>x. similarity x = k) ?same @ filter (\<lambda>x. similarity x = k) ?cross)" for k
    using prefix_filter[OF pre, of "\<lambda>x. similarity x = k"] stable[of k] by simp
  have count: "find_related self ioc ioc_type (int n) = Inr (take n ?ranked)"
    using res[of "int n"] by (simp add: slice_to_nonneg)
  have len: "length (take n ?ranked) \<le> n" by simp
  have first: "\<exists>same cross ranked rs.
      same = ?same \<and> cross = ?cross
    \<and> sorted_wrt (\<lambda>x y. similarity y \<le> similarity x) ranked
    \<and> (\<forall>k. filter (\<lambda>x. similarity x = k) ranked =
             filter (\<lambda>x. similarity x = k) same @ filter (\<lambda>x. similarity x = k) cross)
    \<and> find_related self ioc ioc_type max_results = Inr rs
    \<and> rs = slice_to ranked max_results
    \<and> prefix rs ranked
    \<and> sorted_wrt (\<lambda>x y. similarity y \<le> similarity x) rs
    \<and> (\<forall>k. prefix (filter (\<lambda>x. similarity x = k) rs)
             (filter (\<lambda>x. similarity x = k) same @ filter (\<lambda>x. similarity x = k) cross))
    \<and> find_related self ioc ioc_type (int n) = Inr (take n ranked)
    \<and> length (take n ranked) \<le> n"
    using srt stable res[of max_results] pre srt' stable' count len by blast
  have sim: "calculate_similarity ioc v ioc_type = Inr (similarity_of ioc v ioc_type)"
    by (rule calculate_similarity_value)
  have ins: "db_get (threat_database (add_threat self v t metadata now)) t =
       db_get (threat_database self) t @
         [\<lparr>entry_ioc = v, entry_type = t, entry_metadata = metadata, entry_timestamp = now\<rparr>]"
    by (simp add: threat_database_add_threat db_get_append_entry_same)
  from first sim ins show ?thesis by blast
qed


theorem find_related_sorted_stable_truncated_witness:
  "find_related
       (add_threat (add_threat (add_threat (add_threat (add_threat init_correlator
          ''10.0.0.8'' ''ip'' () (0::nat)) ''a.com'' ''domain'' () 1)
          ''10.0.0.9'' ''ip'' () 2) ''b.org'' ''domain'' () 3) ''10.0.5.5'' ''ip'' () 4)
       ''10.0.0.7'' ''ip'' (int 4) =
     Inr [\<lparr>rel_ioc = ''10.0.0.8'', rel_type = ''ip'', similarity = 0.8,
           relationship = ''same_type'', rel_metadata = ()\<rparr>,
          \<lparr>rel_ioc = ''10.0.0.9'', rel_type = ''ip'', similarity = 0.8,
           relationship = ''same_type'', rel_metadata = ()\<rparr>,
          \<lparr>rel_ioc = ''a.com'', rel_type = ''domain'', similarity = 0.7,
           relationship = ''dns_resolution'', rel_metadata = ()\<rparr>,
          \<lparr>rel_ioc = ''b.org'', rel_type = ''domain'', similarity = 0.7,
           relationship = ''dns_resolution'', rel_metadata = ()\<rparr>]"
proof -
  let ?store = "add_threat (add_threat (add_threat (add_threat (add_threat init_correlator
          ''10.0.0.8'' ''ip'' () (0::nat)) ''a.com'' ''domain'' () 1)
          ''10.0.0.9'' ''ip'' () 2) ''b.org'' ''domain'' () 3) ''10.0.5.5'' ''ip'' () 4"
  let ?expected = "[\<lparr>rel_ioc = ''10.0.0.8'', rel_type = ''ip'', similarity = 0.8,
           relationship = ''same_type'', rel_metadata = ()\<rparr>,
          \<lparr>rel_ioc = ''10.0.0.9'', rel_type = ''ip'', similarity = 0.8,
           relationship = ''same_type'', rel_metadata = ()\<rparr>,
          \<lparr>rel_ioc = ''a.com'', rel_type = ''domain'', similarity = 0.7,
           relationship = ''dns_resolution'', rel_metadata = ()\<rparr>,
          \<lparr>rel_ioc = ''b.org'', rel_type = ''domain'', similarity = 0.7,
           relationship = ''dns_resolution'', rel_metadata = ()\<rparr>]"
  have run: "find_related ?store ''10.0.0.7'' ''ip'' 4 = Inr ?expected"
    by (simp add: find_related_def add_threat_def init_correlator_def db_get_def
          find_cross_type_correlations_def sort_by_similarity_desc_def slice_to_def
          calculate_similarity_ip)
  from find_related_sorted_stable_truncated
         [where self = ?store and ioc = "''10.0.0.7''" and ioc_type = "''ip''"
            and max_results = 4 and n = 4]
  obtain ranked where "find_related ?store ''10.0.0.7'' ''ip'' (int 4) = Inr (take 4 ranked)"
    by blast
  with run show ?thesis by simp
qed

section \<open>Facts about the keyword scan\<close>

lemma starts_with_prefix: "starts_with k s = prefix k s"
  by (induction k s rule: starts_with.induct) simp_all

lemma str_contains_sublist: "str_contains k s = sublist k s"
  by (induction s) (simp_all add: starts_with_prefix sublist_Cons_right)

lemma first_seen_snoc:
  "first_seen (xs @ [x]) = (if x \<in> set xs then first_seen xs else first_seen xs @ [x])"
  by (simp add: first_seen_def)

lemma set_first_seen: "set (first_seen xs) = set xs"
  by (simp add: first_seen_def)

lemma distinct_first_seen: "distinct (first_seen xs)"
  by (simp add: first_seen_def)

lemma scan_keywords_eq:
  "scan_keywords tm d tid kws st =
     (if \<exists>k \<in> set kws. sublist k d then record_match tm tid st else st)"
  by (induction kws) (simp_all add: str_contains_sublist)

lemma fst_record_match:
  "fst (record_match tm tid (techs, tacs)) = (if tid \<in> set techs then techs else techs @ [tid])"
  by (simp add: record_match_def Let_def split: option.splits)

lemma snd_record_match:
  "snd (record_match tm tid (techs, tacs)) =
     (if tid \<in> set techs \<or> tactic_of tm tid = [] \<or> tactic_of tm tid \<in> set tacs then tacs
      else tacs @ [tactic_of tm tid])"
  by (simp add: record_match_def tactic_of_def Let_def split: option.splits)

lemma record_match_follow:
  assumes "tactics_follow tm st"
  shows "tactics_follow tm (record_match tm tid st)"
proof -
  obtain techs tacs where st: "st = (techs, tacs)" by (cases st)
  from assms have tacs: "tacs = first_seen (filter (\<lambda>t. t \<noteq> []) (map (tactic_of tm) techs))"
    by (simp add: tactics_follow_def st)
  have in_tacs: "(x \<in> set tacs) = (x \<in> set (filter (\<lambda>t. t \<noteq> []) (map (tactic_of tm) techs)))" for x
    unfolding tacs set_first_seen ..
  show ?thesis
  proof (cases "tid \<in> set techs")
    case True
    then show ?thesis using assms
      by (simp add: tactics_follow_def st fst_record_match snd_record_match)
  next
    case False
    show ?thesis
    proof (cases "tactic_of tm tid = []")
      case True
      with False tacs show ?thesis
        by (simp add: tactics_follow_def st fst_record_match snd_record_match)
    next
      case ne: False
      have "first_seen (filter (\<lambda>t. t \<noteq> []) (map (tactic_of tm) (techs @ [tid]))) =
            (if tactic_of tm tid \<in> set tacs then tacs else tacs @ [tactic_of tm tid])"
        using ne in_tacs[of "tactic_of tm tid"] tacs by (simp add: first_seen_snoc)
      with False ne show ?thesis
        by (simp add: tactics_follow_def st fst_record_match snd_record_match)
    qed
  qed
qed

lemma scan_keywords_follow:
  "tactics_follow tm st \<Longrightarrow> tactics_follow tm (scan_keywords tm d tid kws st)"
  by (simp add: scan_keywords_eq record_match_follow)

lemma scan_techniques_follow:
  "tactics_follow tm st \<Longrightarrow> tactics_follow tm (scan_techniques tm d tks st)"
proof (induction tks arbitrary: st)
  case Nil
  then show ?case by simp
next
  case (Cons tk tks)
  obtain tid kws where tk: "tk = (tid, kws)" by (cases tk)
  have "tactics_follow tm (scan_keywords tm d tid kws st)"
    using Cons.prems by (rule scan_keywords_follow)
  then have "tactics_follow tm (scan_techniques tm d tks (scan_keywords tm d tid kws st))"
    by (rule Cons.IH)
  then show ?case by (simp add: tk)
qed

lemma fst_scan_keywords:
  "fst (scan_keywords tm d tid kws st) =
     (if (\<exists>k \<in> set kws. sublist k d) \<and> tid \<notin> set (fst st) then fst st @ [tid]
      else fst st)"
  by (cases st) (simp add: scan_keywords_eq fst_record_match)

lemma fst_scan_techniques:
  "distinct (map fst tks) \<Longrightarrow>
   fst (scan_techniques tm d tks st) =
     fst st @ filter (\<lambda>t. t \<notin> set (fst st))
               (map fst (filter (\<lambda>(tid, kws). \<exists>k \<in> set kws. sublist k d) tks))"
proof (induction tks arbitrary: st)
  case Nil
  then show ?case by simp
next
  case (Cons tk tks)
  obtain tid kws where tk: "tk = (tid, kws)" by (cases tk)
  let ?hits = "map fst (filter (\<lambda>(tid, kws). \<exists>k \<in> set kws. sublist k d) tks)"
  let ?st' = "scan_keywords tm d tid kws st"
  from Cons.prems have d: "distinct (map fst tks)" and fresh: "tid \<notin> fst ` set tks"
    by (simp_all add: tk)
  have nohit: "tid \<notin> set ?hits" using fresh by auto
  have ih: "fst (scan_techniques tm d tks ?st') =
              fst ?st' @ filter (\<lambda>t. t \<notin> set (fst ?st')) ?hits"
    by (rule Cons.IH[OF d])
  have drop: "filter (\<lambda>t. t \<notin> set (fst st @ [tid])) ?hits = filter (\<lambda>t. t \<notin> set (fst st)) ?hits"
    using nohit by (intro filter_cong) auto
  show ?case
  proof (cases "(\<exists>k \<in> set kws. sublist k d) \<and> tid \<notin> set (fst st)")
    case True
    then have "fst ?st' = fst st @ [tid]" by (simp add: fst_scan_keywords)
    with ih drop True show ?thesis by (simp add: tk)
  next
    case False
    then have "fst ?st' = fst st" by (simp add: fst_scan_keywords)
    with ih False nohit show ?thesis by (auto simp: tk)
  qed
qed

lemma distinct_TECHNIQUE_KEYWORDS: "distinct (map fst TECHNIQUE_KEYWORDS)"
  by (simp add: TECHNIQUE_KEYWORDS_def)

lemma tactic_of_TECHNIQUE_KEYWORDS:
  "t \<in> set (map fst TECHNIQUE_KEYWORDS) \<Longrightarrow> tactic_of TACTIC_MAPPING t \<noteq> []"
  by (auto simp: TECHNIQUE_KEYWORDS_def TACTIC_MAPPING_def tactic_of_def)

lemma map_to_mitre_fields:
  "techniques (map_to_mitre lower description) =
     fst (scan_techniques TACTIC_MAPPING (lower description) TECHNIQUE_KEYWORDS ([], []))"
  "tactics (map_to_mitre lower description) =
     snd (scan_techniques TACTIC_MAPPING (lower description) TECHNIQUE_KEYWORDS ([], []))"
  by (simp_all add: map_to_mitre_def Let_def case_prod_unfold)

lemma map_to_mitre_cong:
  "lower d = lower' d' \<Longrightarrow> map_to_mitre lower d = map_to_mitre lower' d'"
  by (simp add: map_to_mitre_def)

lemma techniques_map_to_mitre:
  "techniques (map_to_mitre lower description) =
     map fst (filter (\<lambda>(technique_id, keywords).
                         \<exists>keyword \<in> set keywords. sublist keyword (lower description))
                TECHNIQUE_KEYWORDS)"
  by (simp add: map_to_mitre_fields fst_scan_techniques[OF distinct_TECHNIQUE_KEYWORDS])

lemma tactics_map_to_mitre:
  "tactics (map_to_mitre lower description) =
     first_seen (map (tactic_of TACTIC_MAPPING) (techniques (map_to_mitre lower description)))"
proof -
  let ?st = "scan_techniques TACTIC_MAPPING (lower description) TECHNIQUE_KEYWORDS ([], [])"
  have "tactics_follow TACTIC_MAPPING ([], [])"
    by (simp add: tactics_follow_def first_seen_def)
  then have "tactics_follow TACTIC_MAPPING ?st" by (rule scan_techniques_follow)
  then have t: "snd ?st =
      first_seen (filter (\<lambda>t. t \<noteq> []) (map (tactic_of TACTIC_MAPPING) (fst ?st)))"
    by (simp add: tactics_follow_def)
  have "set (fst ?st) \<subseteq> set (map fst TECHNIQUE_KEYWORDS)"
    unfolding map_to_mitre_fields(1)[symmetric] techniques_map_to_mitre by auto
  then have "\<forall>x \<in> set (map (tactic_of TACTIC_MAPPING) (fst ?st)). x \<noteq> []"
    using tactic_of_TECHNIQUE_KEYWORDS by auto
  then have "filter (\<lambda>t. t \<noteq> []) (map (tactic_of TACTIC_MAPPING) (fst ?st)) =
             map (tactic_of TACTIC_MAPPING) (fst ?st)"
    by (simp only: filter_True)
  with t show ?thesis by (simp add: map_to_mitre_fields)
qed

lemma scan_keywords_short_circuit:
  assumes "\<forall>k \<in> set before. \<not> sublist k d" "sublist keyword d"
  shows "scan_keywords tm d tid (before @ keyword # remaining) st = record_match tm tid st"
  using assms by (induction before) (simp_all add: str_contains_sublist)

lemma ascii_lower_idem: "ascii_lower (ascii_lower c) = ascii_lower c"
  by (simp add: ascii_lower_def)

lemma ascii_lower_ascii: "c < 128 \<Longrightarrow> ascii_lower c < 128"
  by (simp add: ascii_lower_def)

lemma powershell_example:
  "techniques (map_to_mitre (map ascii_lower)
       (code_points ''powershell was used for lateral movement'')) = [''T1059'']
   \<and> tactics (map_to_mitre (map ascii_lower)
       (code_points ''powershell was used for lateral movement'')) = [''Execution'']"
  by code_simp

lemma powershell_mixed_case_example:
  "techniques (map_to_mitre (map ascii_lower)
       (code_points ''PowerShell was used for LATERAL movement'')) = [''T1059'']
   \<and> tactics (map_to_mitre (map ascii_lower)
       (code_points ''PowerShell was used for LATERAL movement'')) = [''Execution'']"
  by code_simp

lemma powershell_ascii:
  "\<forall>c \<in> set (code_points ''powershell was used for lateral movement''). c < 128"
  "\<forall>c \<in> set (code_points ''PowerShell was used for LATERAL movement''). c < 128"
  by code_simp+

section \<open>Claims about the MITRE mapper\<close>

text \<open>
  Claim C6: for every description string, \<open>map_to_mitre\<close> lower-cases the description
  and goes through the techniques in the declaration order of the keyword table. A
  technique is recorded, with its tactic, at the first of its keywords that is a
  substring of the lower-cased description, and its remaining keywords are not looked at.
  So the techniques of the result are the techniques of the table that have a keyword
  occurring in the lower-cased description, in table order; the tactics are the tactics
  of these techniques in order of first occurrence; neither list has duplicates.

  This holds for every description (a list of code points) and whatever \<open>str.lower()\<close>
  returns for it. With \<open>str.lower()\<close> lower-casing ASCII strings as Python does,
  the description \<open>powershell was used for lateral movement\<close> gives technique T1059 and
  tactic Execution, so does the same sentence in mixed case, and an ASCII description
  gives the same result as its lower-cased form. The ASCII lower-casing maps the
  code points of A to Z to those of a to z and leaves every other code point as it is.
\<close>

theorem map_to_mitre_first_match_in_catalog_order:
  "techniques (map_to_mitre lower description) =
     map fst (filter (\<lambda>(technique_id, keywords).
                         \<exists>keyword \<in> set keywords. sublist keyword (lower description))
                TECHNIQUE_KEYWORDS)
   \<and> tactics (map_to_mitre lower description) =
       first_seen (map (tactic_of TACTIC_MAPPING) (techniques (map_to_mitre lower description)))
   \<and> distinct (techniques (map_to_mitre lower description))
   \<and> distinct (tactics (map_to_mitre lower description))
   \<and> ((\<forall>k \<in> set before. \<not> sublist k (lower description))
          \<and> sublist keyword (lower description) \<longrightarrow>
        scan_keywords TACTIC_MAPPING (lower description) technique_id
            (before @ keyword # remaining) st =
          record_match TACTIC_MAPPING technique_id st)
   \<and> code_points ''AZaz'' = [65, 90, 97, 122]
   \<and> map ascii_lower (code_points ''ABCDEFGHIJKLMNOPQRSTUVWXYZ'') =
       code_points ''abcdefghijklmnopqrstuvwxyz''
   \<and> (n < 65 \<or> 90 < n \<longrightarrow> ascii_lower n = n)
   \<and> ((\<forall>s. (\<forall>c \<in> set s. c < 128) \<longrightarrow> lower s = map ascii_lower s) \<longrightarrow>
         ''T1059'' \<in> set (techniques (map_to_mitre lower
             (code_points ''powershell was used for lateral movement'')))
       \<and> ''Execution'' \<in> set (tactics (map_to_mitre lower
             (code_points ''powershell was used for lateral movement'')))
       \<and> ''T1059'' \<in> set (techniques (map_to_mitre lower
             (code_points ''PowerShell was used for LATERAL movement'')))
       \<and> ''Execution'' \<in> set (tactics (map_to_mitre lower
             (code_points ''PowerShell was used for LATERAL movement'')))
       \<and> ((\<forall>c \<in> set description. c < 128) \<longrightarrow>
             map_to_mitre lower description = map_to_mitre lower (map ascii_lower description)))"
proof -
  have order: "techniques (map_to_mitre lower description) =
     map fst (filter (\<lambda>(technique_id, keywords).
                         \<exists>keyword \<in> set keywords. sublist keyword (lower description))
                TECHNIQUE_KEYWORDS)"
    by (rule techniques_map_to_mitre)
  have tacs: "tactics (map_to_mitre lower description) =
       first_seen (map (tactic_of TACTIC_MAPPING) (techniques (map_to_mitre lower description)))"
    by (rule tactics_map_to_mitre)
  have d1: "distinct (techniques (map_to_mitre lower description))"
    unfolding order using distinct_TECHNIQUE_KEYWORDS by (rule distinct_map_filter)
  have d2: "distinct (tactics (map_to_mitre lower description))"
    unfolding tacs by (rule distinct_first_seen)
  have brk: "(\<forall>k \<in> set before. \<not> sublist k (lower description))
          \<and> sublist keyword (lower description) \<longrightarrow>
        scan_keywords TACTIC_MAPPING (lower description) technique_id
            (before @ keyword # remaining) st =
          record_match TACTIC_MAPPING technique_id st"
    using scan_keywords_short_circuit by blast
  have py: "''T1059'' \<in> set (techniques (map_to_mitre lower
             (code_points ''powershell was used for lateral movement'')))
       \<and> ''Execution'' \<in> set (tactics (map_to_mitre lower
             (code_points ''powershell was used for lateral movement'')))
       \<and> ''T1059'' \<in> set (techniques (map_to_mitre lower
             (code_points ''PowerShell was used for LATERAL movement'')))
       \<and> ''Execution'' \<in> set (tactics (map_to_mitre lower
             (code_points ''PowerShell was used for LATERAL movement'')))
       \<and> ((\<forall>c \<in> set description. c < 128) \<longrightarrow>
             map_to_mitre lower description = map_to_mitre lower (map ascii_lower description))"
    if low: "\<forall>s. (\<forall>c \<in> set s. c < 128) \<longrightarrow> lower s = map ascii_lower s"
  proof -
    let ?p = "code_points ''powershell was used for lateral movement''"
    let ?q = "code_points ''PowerShell was used for LATERAL movement''"
    have "lower ?p = map ascii_lower ?p" using low powershell_ascii(1) by blast
    then have p: "map_to_mitre lower ?p = map_to_mitre (map ascii_lower) ?p"
      by (rule map_to_mitre_cong)
    have "lower ?q = map ascii_lower ?q" using low powershell_ascii(2) by blast
    then have q: "map_to_mitre lower ?q = map_to_mitre (map ascii_lower) ?q"
      by (rule map_to_mitre_cong)
    have same: "map_to_mitre lower description = map_to_mitre lower (map ascii_lower description)"
      if asc: "\<forall>c \<in> set description. c < 128"
    proof -
      have "\<forall>c \<in> set (map ascii_lower description). c < 128"
        using asc ascii_lower_ascii by auto
      with low have "lower (map ascii_lower description) =
                     map ascii_lower (map ascii_lower description)"
        by blast
      also have "\<dots> = map ascii_lower description"
        by (simp add: ascii_lower_idem)
      also have "\<dots> = lower description" using low asc by simp
      finally have "lower description = lower (map ascii_lower description)" by simp
      then show ?thesis by (rule map_to_mitre_cong)
    qed
    show ?thesis
      unfolding p q using powershell_example powershell_mixed_case_example same by simp
  qed
  have v1: "code_points ''AZaz'' = [65, 90, 97, 122]"
    by code_simp
  have v2: "map ascii_lower (code_points ''ABCDEFGHIJKLMNOPQRSTUVWXYZ'') =
       code_points ''abcdefghijklmnopqrstuvwxyz''"
    by code_simp
  have v3: "n < 65 \<or> 90 < n \<longrightarrow> ascii_lower n = n"
    by (auto simp: ascii_lower_def)
  from order tacs d1 d2 brk v1 v2 v3 py show ?thesis by blast
qed

theorem map_to_mitre_first_match_in_catalog_order_witness:
  "techniques (map_to_mitre (map ascii_lower)
       (code_points ''PowerShell and cmd scripts over a VPN tunnel'')) =
     [''T1059'', ''T1090'', ''T1133'']
   \<and> tactics (map_to_mitre (map ascii_lower)
       (code_points ''PowerShell and cmd scripts over a VPN tunnel'')) =
     [''Execution'', ''Command and Control'', ''Persistence'']
   \<and> \<not> sublist (code_points ''command'')
         (map ascii_lower (code_points ''PowerShell and cmd scripts over a VPN tunnel''))
   \<and> sublist (code_points ''script'')
         (map ascii_lower (code_points ''PowerShell and cmd scripts over a VPN tunnel''))
   \<and> scan_keywords TACTIC_MAPPING
        (map ascii_lower (code_points ''PowerShell and cmd scripts over a VPN tunnel''))
        ''T1059'' (map code_points [''command'', ''script'', ''powershell'', ''cmd'', ''bash''])
        ([], []) =
       ([''T1059''], [''Execution''])
   \<and> ''T1059'' \<in> set (techniques (map_to_mitre (map ascii_lower)
             (code_points ''powershell was used for lateral movement'')))
   \<and> ''Execution'' \<in> set (tactics (map_to_mitre (map ascii_lower)
             (code_points ''PowerShell was used for LATERAL movement'')))
   \<and> map_to_mitre (map ascii_lower)
         (code_points ''PowerShell and cmd scripts over a VPN tunnel'') =
       map_to_mitre (map ascii_lower)
         (map ascii_lower (code_points ''PowerShell and cmd scripts over a VPN tunnel''))"
proof -
  let ?d = "code_points ''PowerShell and cmd scripts over a VPN tunnel''"
  let ?ld = "map ascii_lower ?d"
  have a: "techniques (map_to_mitre (map ascii_lower) ?d) = [''T1059'', ''T1090'', ''T1133'']"
    by code_simp
  have b: "tactics (map_to_mitre (map ascii_lower) ?d) =
             [''Execution'', ''Command and Control'', ''Persistence'']"
    by code_simp
  have c: "\<not> sublist (code_points ''command'') ?ld"
    unfolding str_contains_sublist[symmetric] by code_simp
  have d: "sublist (code_points ''script'') ?ld"
    unfolding str_contains_sublist[symmetric] by code_simp
  have asc: "\<forall>c \<in> set ?d. c < 128"
    by code_simp
  have rm: "record_match TACTIC_MAPPING ''T1059'' ([], []) = ([''T1059''], [''Execution''])"
    by code_simp
  note inst = map_to_mitre_first_match_in_catalog_order
         [where lower = "map ascii_lower" and description = ?d
            and before = "[code_points ''command'']" and keyword = "code_points ''script''"
            and remaining = "map code_points [''powershell'', ''cmd'', ''bash'']"
            and technique_id = "''T1059''" and st = "([], [])"]
  from inst c d
  have sc: "scan_keywords TACTIC_MAPPING ?ld ''T1059''
          ([code_points ''command''] @ code_points ''script'' #
             map code_points [''powershell'', ''cmd'', ''bash'']) ([], []) =
        record_match TACTIC_MAPPING ''T1059'' ([], [])"
    by simp
  from inst
  have ex: "''T1059'' \<in> set (techniques (map_to_mitre (map ascii_lower)
             (code_points ''powershell was used for lateral movement'')))
       \<and> ''Execution'' \<in> set (tactics (map_to_mitre (map ascii_lower)
             (code_points ''PowerShell was used for LATERAL movement'')))"
    by simp
  from inst asc
  have ci: "map_to_mitre (map ascii_lower) ?d = map_to_mitre (map ascii_lower) ?ld"
    by simp
  from a b c d sc rm ex ci show ?thesis by simp
qed

end
